theory Spec2Isabelle
  imports Main "HOL-Library.Sublist"
begin

section \<open>Data model\<close>

text \<open>
  The user collection of the authentication service. A user document carries the fields
  the routes read and write: the id, name, email, password hash (absent for accounts that
  only sign in through the identity provider), role, external identity id and the ordered
  list of refresh-token records. Timestamps are milliseconds since the epoch.
\<close>

datatype role = RoleUser | RoleAdmin

record token_record =
  token :: string
  createdAt :: int

record user =
  uid :: string
  name :: string
  email :: string
  password :: "string option"
  role :: role
  googleId :: "string option"
  refreshTokens :: "token_record list"

text \<open>
  What a caller sees of a user document: the object of a query with a field selection, and
  the object a response serialises. A secret field that is not part of the object is
  \<open>None\<close>.
\<close>

record user_view =
  v_id :: string
  v_name :: string
  v_email :: string
  v_role :: role
  v_googleId :: "string option"
  v_password :: "string option"
  v_refreshTokens :: "token_record list option"

section \<open>Token codec (utils/jwt.js)\<close>

text \<open>
  The payload of an access token is \<open>{id, email, role}\<close>, that of a refresh token is
  \<open>{id}\<close>. The signing library is outside the repository: its \<open>sign\<close> and \<open>verify\<close>
  are parameters, together with the two secrets, the configured lifetimes, the password
  hash and the password comparison of a user document, the generator of document ids, the
  schema validation run when a new document is saved, the clock, and the calendar
  arithmetic of dates (a date and a number of days give the date that many days
  earlier). A failed
  verification throws an error whose name the handlers inspect: \<open>JsonWebTokenError\<close>,
  \<open>TokenExpiredError\<close>, or an error of any other name (\<open>OtherError\<close>).
\<close>

datatype payload = AccessPayload string string role | RefreshPayload string

fun payload_id :: "payload \<Rightarrow> string" where
  "payload_id (AccessPayload i _ _) = i"
| "payload_id (RefreshPayload i) = i"

datatype jwt_error = JsonWebTokenError | TokenExpiredError | OtherError

record env =
  JWT_ACCESS_SECRET :: string
  JWT_REFRESH_SECRET :: string
  JWT_ACCESS_EXPIRE :: "string option"
  JWT_REFRESH_EXPIRE :: "string option"
  jwt_sign :: "payload \<Rightarrow> string \<Rightarrow> string \<Rightarrow> string"
  jwt_verify :: "string \<Rightarrow> string \<Rightarrow> jwt_error + payload"
  hashPassword :: "string \<Rightarrow> string"
  comparePassword :: "user \<Rightarrow> string \<Rightarrow> bool"
  newObjectId :: "user list \<Rightarrow> string"
  validates :: "user \<Rightarrow> bool"
  now :: int
  subtractDays :: "int \<Rightarrow> int \<Rightarrow> int"

text \<open>JavaScript's \<open>x || d\<close> on an optional string: the default replaces an absent or empty value.\<close>

fun or_default :: "string option \<Rightarrow> string \<Rightarrow> string" where
  "or_default None d = d"
| "or_default (Some s) d = (if s = [] then d else s)"

definition generateAccessToken :: "env \<Rightarrow> payload \<Rightarrow> string" where
  "generateAccessToken e p =
     jwt_sign e p (JWT_ACCESS_SECRET e) (or_default (JWT_ACCESS_EXPIRE e) ''15m'')"

definition generateRefreshToken :: "env \<Rightarrow> payload \<Rightarrow> string" where
  "generateRefreshToken e p =
     jwt_sign e p (JWT_REFRESH_SECRET e) (or_default (JWT_REFRESH_EXPIRE e) ''7d'')"

definition verifyAccessToken :: "env \<Rightarrow> string \<Rightarrow> jwt_error + payload" where
  "verifyAccessToken e t = jwt_verify e t (JWT_ACCESS_SECRET e)"

definition verifyRefreshToken :: "env \<Rightarrow> string \<Rightarrow> jwt_error + payload" where
  "verifyRefreshToken e t = jwt_verify e t (JWT_REFRESH_SECRET e)"

section \<open>The user collection\<close>

text \<open>
  The collection is the list of its documents. \<open>findById\<close> and \<open>findOne\<close> return the
  first match; saving a loaded document writes its modified paths to the first document
  with that id (\<open>updateById\<close>), and leaves the collection as it is when there is none.
\<close>

definition findById :: "user list \<Rightarrow> string \<Rightarrow> user option" where
  "findById users i = find (\<lambda>u. uid u = i) users"

definition findOne_email :: "user list \<Rightarrow> string \<Rightarrow> user option" where
  "findOne_email users em = find (\<lambda>u. email u = em) users"

fun updateById :: "string \<Rightarrow> (user \<Rightarrow> user) \<Rightarrow> user list \<Rightarrow> user list" where
  "updateById i f [] = []"
| "updateById i f (u # us) = (if uid u = i then f u # us else u # updateById i f us)"

text \<open>Saving a document whose record list was assigned writes that path.\<close>

definition save_refreshTokens :: "string \<Rightarrow> token_record list \<Rightarrow> user list \<Rightarrow> user list" where
  "save_refreshTokens i records users = updateById i (\<lambda>d. d\<lparr>refreshTokens := records\<rparr>) users"

section \<open>Cleanup sweeper (utils/tokenCleanup.js)\<close>

text \<open>
  The loop of \<open>cleanupUserRefreshTokens\<close>: every record whose token verifies under the
  refresh secret is pushed on \<open>validTokens\<close>, every other one is counted. Any error of the
  verification is caught by the loop body.
\<close>

fun sweep_loop ::
  "env \<Rightarrow> token_record list \<Rightarrow> token_record list \<Rightarrow> nat \<Rightarrow> token_record list \<times> nat" where
  "sweep_loop e [] validTokens expiredCount = (validTokens, expiredCount)"
| "sweep_loop e (tokenObj # rest) validTokens expiredCount =
     (case verifyRefreshToken e (token tokenObj) of
        Inr _ \<Rightarrow> sweep_loop e rest (validTokens @ [tokenObj]) expiredCount
      | Inl _ \<Rightarrow> sweep_loop e rest validTokens (expiredCount + 1))"

definition cleanupUserRefreshTokens :: "env \<Rightarrow> user list \<Rightarrow> string \<Rightarrow> nat \<times> user list" where
  "cleanupUserRefreshTokens e users userId =
     (case findById users userId of
        None \<Rightarrow> (0, users)
      | Some u \<Rightarrow>
          (case sweep_loop e (refreshTokens u) [] 0 of
             (validTokens, expiredCount) \<Rightarrow>
               if expiredCount > 0
               then (expiredCount,
                     save_refreshTokens userId validTokens users)
               else (expiredCount, users)))"

text \<open>
  \<open>cleanupOldTokens\<close>: the cutoff is the date \<open>olderThanDays\<close> days before now (30 days
  when the argument is not given); \<open>updateMany\<close> pulls, from every document that has a
  record created before the cutoff, all such records, and the result is the number of
  documents modified.
\<close>

definition cutoffDate :: "env \<Rightarrow> int \<Rightarrow> int" where
  "cutoffDate e olderThanDays = subtractDays e (now e) olderThanDays"

definition pull_older :: "int \<Rightarrow> user \<Rightarrow> user" where
  "pull_older cutoff u =
     (if list_ex (\<lambda>r. createdAt r < cutoff) (refreshTokens u)
      then u\<lparr>refreshTokens := filter (\<lambda>r. \<not> createdAt r < cutoff) (refreshTokens u)\<rparr>
      else u)"

definition cleanupOldTokens :: "env \<Rightarrow> int option \<Rightarrow> user list \<Rightarrow> nat \<times> user list" where
  "cleanupOldTokens e olderThanDays users =
     (let cutoff = cutoffDate e (case olderThanDays of None \<Rightarrow> 30 | Some d \<Rightarrow> d)
      in (length (filter (\<lambda>u. list_ex (\<lambda>r. createdAt r < cutoff) (refreshTokens u)) users),
          map (pull_older cutoff) users))"

section \<open>Requests and responses\<close>

text \<open>
  A response is the status code and the JSON body: the \<open>success\<close> flag, the message when
  there is one, and the data. A request body field is an optional string; a field that is
  absent or the empty string is falsy in the handlers' checks.
\<close>

datatype body_data = NoData | AuthData user_view string string | AccessTokenData string

record response =
  status :: nat
  success :: bool
  message :: "string option"
  data :: body_data

definition failure :: "nat \<Rightarrow> string \<Rightarrow> response" where
  "failure code msg = \<lparr>status = code, success = False, message = Some msg, data = NoData\<rparr>"

fun truthy :: "string option \<Rightarrow> bool" where
  "truthy None = False"
| "truthy (Some s) = (s \<noteq> [])"

fun str :: "string option \<Rightarrow> string" where
  "str None = []"
| "str (Some s) = s"

record register_body =
  r_name :: "string option"
  r_email :: "string option"
  r_password :: "string option"
  r_role :: "string option"

record login_body =
  l_email :: "string option"
  l_password :: "string option"

section \<open>User model (models/User.js)\<close>

text \<open>
  The object of a query with the selection \<open>-password -refreshTokens\<close>, and the object of
  a document loaded whole.
\<close>

definition select_without_secrets :: "user \<Rightarrow> user_view" where
  "select_without_secrets u =
     \<lparr>v_id = uid u, v_name = name u, v_email = email u, v_role = role u,
      v_googleId = googleId u, v_password = None, v_refreshTokens = None\<rparr>"

definition toObject :: "user \<Rightarrow> user_view" where
  "toObject u =
     \<lparr>v_id = uid u, v_name = name u, v_email = email u, v_role = role u,
      v_googleId = googleId u, v_password = password u,
      v_refreshTokens = Some (refreshTokens u)\<rparr>"

text \<open>
  Modelled from the spec: the serialisation of a user document in a response, which
  models/User.js defines and which is not among the sources. The spec has register and
  login return the user profile without secrets; the password hash and the record list are
  the secret fields.
\<close>

definition toJSON :: "user \<Rightarrow> user_view" where
  "toJSON u = (toObject u)\<lparr>v_password := None, v_refreshTokens := None\<rparr>"

text \<open>
  Modelled from the spec: the method \<open>addRefreshToken\<close> of models/User.js, which is not
  among the sources. The spec has it append a new record, created now, to the user's list.
\<close>

definition addRefreshToken :: "env \<Rightarrow> user \<Rightarrow> string \<Rightarrow> user" where
  "addRefreshToken e u t =
     u\<lparr>refreshTokens := refreshTokens u @ [\<lparr>token = t, createdAt = now e\<rparr>]\<rparr>"

text \<open>
  Modelled from the spec: the method \<open>removeRefreshToken\<close> of models/User.js, which is not
  among the sources. The spec has it remove exactly the record matching the token string
  from the caller's own record list, and do nothing when there is none.
\<close>

definition removeRefreshToken :: "user list \<Rightarrow> user_view \<Rightarrow> string \<Rightarrow> user list" where
  "removeRefreshToken users req_user t =
     updateById (v_id req_user)
       (\<lambda>d. d\<lparr>refreshTokens := filter (\<lambda>r. token r \<noteq> t) (refreshTokens d)\<rparr>) users"

section \<open>Access guard (middleware/auth.js)\<close>

text \<open>
  The guard answers with a response, or passes the resolved user on as \<open>req.user\<close>. The
  sweep it dispatches for that user is not awaited: it is \<open>cleanupUserRefreshTokens\<close>, run
  on its own.
\<close>

definition auth :: "env \<Rightarrow> user list \<Rightarrow> string option \<Rightarrow> response + user_view" where
  "auth e users authHeader =
     (if \<not> truthy authHeader \<or> \<not> prefix ''Bearer '' (str authHeader)
      then Inl (failure 401 ''Access denied. No token provided.'')
      else
        (case verifyAccessToken e (drop 7 (str authHeader)) of
           Inl err \<Rightarrow>
             if err = JsonWebTokenError then Inl (failure 401 ''Invalid token.'')
             else if err = TokenExpiredError then Inl (failure 401 ''Token expired.'')
             else Inl (failure 500 ''Internal server error.'')
         | Inr decoded \<Rightarrow>
             (case findById users (payload_id decoded) of
                None \<Rightarrow> Inl (failure 401 ''Invalid token. User not found.'')
              | Some u \<Rightarrow> Inr (select_without_secrets u))))"

definition adminAuth :: "user_view \<Rightarrow> response + user_view" where
  "adminAuth req_user =
     (if v_role req_user \<noteq> RoleAdmin
      then Inl (failure 403 ''Access denied. Admin role required.'')
      else Inr req_user)"

section \<open>Session manager (routes/auth.js)\<close>

text \<open>
  Every handler takes the collection and returns the response with the collection after
  it, and runs to its end before anything else touches the collection. The audit sink
  swallows its own failures and is left out. Saving the new document of a registration
  runs the schema validation, whose failure is caught by the handler as any other error
  is, and stores the hash of the password; both belong to models/User.js and are
  parameters of the environment. Operations of the store itself do not fail.
\<close>

definition register :: "env \<Rightarrow> user list \<Rightarrow> register_body \<Rightarrow> response \<times> user list" where
  "register e users body =
     (if \<not> truthy (r_name body) \<or> \<not> truthy (r_email body) \<or> \<not> truthy (r_password body)
      then (failure 400 ''Please provide name, email, and password'', users)
      else if length (str (r_password body)) < 6
      then (failure 400 ''Password must be at least 6 characters long'', users)
      else if findOne_email users (str (r_email body)) \<noteq> None
      then (failure 400 ''User already exists with this email'', users)
      else
        (let u = \<lparr>uid = newObjectId e users, name = str (r_name body),
                  email = str (r_email body),
                  password = Some (hashPassword e (str (r_password body))),
                  role = (if r_role body = Some ''admin'' then RoleAdmin else RoleUser),
                  googleId = None, refreshTokens = []\<rparr>
         in if \<not> validates e u then (failure 500 ''Internal server error'', users)
            else
              (let accessToken = generateAccessToken e (AccessPayload (uid u) (email u) (role u));
                   refreshToken = generateRefreshToken e (RefreshPayload (uid u));
                   u' = addRefreshToken e u refreshToken
               in (\<lparr>status = 201, success = True,
                    message = Some ''User registered successfully'',
                    data = AuthData (toJSON u') accessToken refreshToken\<rparr>,
                   save_refreshTokens (uid u') (refreshTokens u') (users @ [u])))))"

definition login :: "env \<Rightarrow> user list \<Rightarrow> login_body \<Rightarrow> response \<times> user list" where
  "login e users body =
     (if \<not> truthy (l_email body) \<or> \<not> truthy (l_password body)
      then (failure 400 ''Please provide email and password'', users)
      else
        (case findOne_email users (str (l_email body)) of
           None \<Rightarrow> (failure 401 ''Invalid credentials'', users)
         | Some u \<Rightarrow>
             if \<not> comparePassword e u (str (l_password body))
             then (failure 401 ''Invalid credentials'', users)
             else
               (let accessToken = generateAccessToken e (AccessPayload (uid u) (email u) (role u));
                    refreshToken = generateRefreshToken e (RefreshPayload (uid u));
                    u' = addRefreshToken e u refreshToken
                in (\<lparr>status = 200, success = True, message = Some ''Login successful'',
                     data = AuthData (toJSON u') accessToken refreshToken\<rparr>,
                    save_refreshTokens (uid u') (refreshTokens u') users))))"

definition refresh :: "env \<Rightarrow> user list \<Rightarrow> string option \<Rightarrow> response \<times> user list" where
  "refresh e users refreshToken =
     (if \<not> truthy refreshToken
      then (failure 401 ''Refresh token required'', users)
      else
        (case verifyRefreshToken e (str refreshToken) of
           Inl err \<Rightarrow>
             if err = JsonWebTokenError \<or> err = TokenExpiredError
             then (failure 401 ''Invalid refresh token'', users)
             else (failure 500 ''Internal server error'', users)
         | Inr decoded \<Rightarrow>
             (case findById users (payload_id decoded) of
                None \<Rightarrow> (failure 401 ''Invalid refresh token'', users)
              | Some u \<Rightarrow>
                  if \<not> list_ex (\<lambda>t. token t = str refreshToken) (refreshTokens u)
                  then (failure 401 ''Invalid refresh token'', users)
                  else
                    (\<lparr>status = 200, success = True, message = None,
                      data = AccessTokenData
                        (generateAccessToken e (AccessPayload (uid u) (email u) (role u)))\<rparr>,
                     users))))"

definition logout_handler :: "user list \<Rightarrow> user_view \<Rightarrow> string option \<Rightarrow> response \<times> user list" where
  "logout_handler users req_user refreshToken =
     (if truthy refreshToken
      then (\<lparr>status = 200, success = True, message = Some ''Logout successful'',
             data = NoData\<rparr>,
            removeRefreshToken users req_user (str refreshToken))
      else (\<lparr>status = 200, success = True, message = Some ''Logged out from all devices'',
             data = NoData\<rparr>,
            save_refreshTokens (v_id req_user) [] users))"

definition logout ::
  "env \<Rightarrow> user list \<Rightarrow> string option \<Rightarrow> string option \<Rightarrow> response \<times> user list" where
  "logout e users authHeader refreshToken =
     (case auth e users authHeader of
        Inl r \<Rightarrow> (r, users)
      | Inr req_user \<Rightarrow> logout_handler users req_user refreshToken)"

definition logout_all_handler :: "user list \<Rightarrow> user_view \<Rightarrow> response \<times> user list" where
  "logout_all_handler users req_user =
     (\<lparr>status = 200, success = True, message = Some ''Logged out from all devices'',
       data = NoData\<rparr>,
      save_refreshTokens (v_id req_user) [] users)"

definition logout_all :: "env \<Rightarrow> user list \<Rightarrow> string option \<Rightarrow> response \<times> user list" where
  "logout_all e users authHeader =
     (case auth e users authHeader of
        Inl r \<Rightarrow> (r, users)
      | Inr req_user \<Rightarrow> logout_all_handler users req_user)"

text \<open>The record list of a user in the collection, empty when there is no such user.\<close>

definition record_list :: "user list \<Rightarrow> string \<Rightarrow> token_record list" where
  "record_list users i = (case findById users i of None \<Rightarrow> [] | Some u \<Rightarrow> refreshTokens u)"

section \<open>A concrete instance\<close>

text \<open>
  An environment and a collection to run the handlers on. A token is the secret, a dot and
  the user id; a token ending in an exclamation mark has expired. The hash of a password
  is the password after a hash sign. The first user has one live session and one expired
  one; the second user is an administrator whose only session is old and still verifies.
\<close>

definition example_env :: env where
  "example_env =
     \<lparr>JWT_ACCESS_SECRET = ''A'', JWT_REFRESH_SECRET = ''R'',
      JWT_ACCESS_EXPIRE = None, JWT_REFRESH_EXPIRE = None,
      jwt_sign = (\<lambda>p secret expiresIn. secret @ ''.'' @ payload_id p),
      jwt_verify = (\<lambda>t secret.
         if t \<noteq> [] \<and> last t = CHR ''!'' then Inl TokenExpiredError
         else if prefix (secret @ ''.'') t
         then Inr (RefreshPayload (drop (length secret + 1) t))
         else Inl JsonWebTokenError),
      hashPassword = (\<lambda>p. ''#'' @ p),
      comparePassword = (\<lambda>u p. password u = Some (''#'' @ p)),
      newObjectId = (\<lambda>users. ''u'' @ replicate (length users) (CHR ''+'')),
      validates = (\<lambda>u. True),
      now = 3000000000,
      subtractDays = (\<lambda>date days. date - days * 86400000)\<rparr>"

definition alice :: user where
  "alice =
     \<lparr>uid = ''u1'', name = ''Alice'', email = ''a@x.com'', password = Some ''#secret1'',
      role = RoleUser, googleId = None,
      refreshTokens = [\<lparr>token = ''R.u1'', createdAt = 2999999000\<rparr>,
                       \<lparr>token = ''R.u1!'', createdAt = 100\<rparr>]\<rparr>"

definition bob :: user where
  "bob =
     \<lparr>uid = ''u2'', name = ''Bob'', email = ''b@x.com'', password = Some ''#hunter22'',
      role = RoleAdmin, googleId = None,
      refreshTokens = [\<lparr>token = ''R.u2'', createdAt = 200\<rparr>]\<rparr>"

definition example_users :: "user list" where
  "example_users = [alice, bob]"

section \<open>Facts about the collection\<close>

lemmas example_defs =
  example_env_def example_users_def alice_def bob_def verifyRefreshToken_def
  verifyAccessToken_def generateAccessToken_def generateRefreshToken_def findById_def
  findOne_email_def record_list_def save_refreshTokens_def

lemma findById_updateById:
  "(\<And>u. uid (f u) = uid u) \<Longrightarrow>
   findById (updateById i f us) j =
     (if j = i then map_option f (findById us i) else findById us j)"
  by (induction us) (auto simp: findById_def)

lemma findById_save_refreshTokens:
  "findById (save_refreshTokens i rs us) j =
     (if j = i then map_option (\<lambda>d. d\<lparr>refreshTokens := rs\<rparr>) (findById us i)
      else findById us j)"
  unfolding save_refreshTokens_def by (rule findById_updateById) simp

lemma record_list_save_refreshTokens:
  "record_list (save_refreshTokens i rs us) j =
     (if j = i then (case findById us i of None \<Rightarrow> [] | Some _ \<Rightarrow> rs)
      else record_list us j)"
  by (simp add: record_list_def findById_save_refreshTokens split: option.splits)

lemma record_list_removeRefreshToken:
  "record_list (removeRefreshToken us v t) j =
     (if j = v_id v then filter (\<lambda>r. token r \<noteq> t) (record_list us j)
      else record_list us j)"
  by (simp add: record_list_def removeRefreshToken_def findById_updateById
      split: option.splits)

section \<open>The sweeps\<close>

lemma sweep_loop_eq:
  "sweep_loop e xs v n =
     (v @ filter (\<lambda>r. \<not> isl (verifyRefreshToken e (token r))) xs,
      n + length (filter (\<lambda>r. isl (verifyRefreshToken e (token r))) xs))"
  by (induction xs arbitrary: v n) (auto split: sum.splits)

lemma filter_all_id: "filter P xs = xs \<longleftrightarrow> filter (\<lambda>x. \<not> P x) xs = []"
  by (auto simp: filter_id_conv filter_empty_conv)

lemma record_list_cleanupUserRefreshTokens:
  "record_list (snd (cleanupUserRefreshTokens e users i)) j =
     (if j = i then filter (\<lambda>r. \<not> isl (verifyRefreshToken e (token r))) (record_list users j)
      else record_list users j)"
proof (cases "findById users i")
  case None
  then show ?thesis by (simp add: cleanupUserRefreshTokens_def record_list_def)
next
  case (Some u)
  show ?thesis
  proof (cases "filter (\<lambda>r. isl (verifyRefreshToken e (token r))) (refreshTokens u) = []")
    case True
    then have "filter (\<lambda>r. \<not> isl (verifyRefreshToken e (token r))) (refreshTokens u) =
        refreshTokens u"
      by (simp add: filter_all_id)
    with True Some show ?thesis
      by (simp add: cleanupUserRefreshTokens_def record_list_def sweep_loop_eq)
  next
    case False
    with Some show ?thesis
      by (simp add: cleanupUserRefreshTokens_def sweep_loop_eq
          record_list_save_refreshTokens) (simp add: record_list_def)
  qed
qed

text \<open>
  C6. The per-user sweep is idempotent. For every environment, collection and user id, a
  second sweep right after the first removes nothing and leaves the collection as the
  first left it; the first sweep leaves exactly the records whose tokens verify, in their
  order, and returns the number of records whose tokens do not.
\<close>

theorem per_user_sweep_idempotent:
  "cleanupUserRefreshTokens e (snd (cleanupUserRefreshTokens e users i)) i =
     (0, snd (cleanupUserRefreshTokens e users i))
   \<and> record_list (snd (cleanupUserRefreshTokens e users i)) i =
       filter (\<lambda>r. \<not> isl (verifyRefreshToken e (token r))) (record_list users i)
   \<and> fst (cleanupUserRefreshTokens e users i) =
       length (filter (\<lambda>r. isl (verifyRefreshToken e (token r))) (record_list users i))"
proof (cases "findById users i")
  case None
  then show ?thesis by (simp add: cleanupUserRefreshTokens_def record_list_def)
next
  case (Some u)
  let ?bad = "filter (\<lambda>r. isl (verifyRefreshToken e (token r))) (refreshTokens u)"
  let ?good = "filter (\<lambda>r. \<not> isl (verifyRefreshToken e (token r))) (refreshTokens u)"
  show ?thesis
  proof (cases "?bad = []")
    case True
    then have "?good = refreshTokens u" by (simp add: filter_all_id)
    with True Some show ?thesis
      by (simp add: cleanupUserRefreshTokens_def record_list_def sweep_loop_eq)
  next
    case False
    have g: "filter (\<lambda>r. isl (verifyRefreshToken e (token r))) ?good = []" by simp
    have gg: "filter (\<lambda>r. \<not> isl (verifyRefreshToken e (token r))) ?good = ?good" by simp
    from False Some show ?thesis
      by (simp add: cleanupUserRefreshTokens_def record_list_def sweep_loop_eq
          findById_save_refreshTokens g gg)
  qed
qed

lemma record_list_pull_older:
  "record_list (map (pull_older c) us) i =
     filter (\<lambda>r. \<not> createdAt r < c) (record_list us i)"
proof -
  have u: "uid (pull_older c u) = uid u" for u
    by (simp add: pull_older_def)
  have r: "refreshTokens (pull_older c u) = filter (\<lambda>r. \<not> createdAt r < c) (refreshTokens u)"
    for u
    by (auto simp: pull_older_def list_ex_iff filter_id_conv)
  show ?thesis
    by (induction us) (simp_all add: record_list_def findById_def u r)
qed

text \<open>
  C7. The age-based sweep goes by the creation time alone. For every user id, the record
  list after the sweep is the list before it without the records created before the date
  that lies the configured number of days before now, as the calendar arithmetic of the
  environment gives it: every record older than the threshold is removed and every
  younger one is kept, in its place. Where a day of that arithmetic is 86400000
  milliseconds, the records kept are exactly those whose age now is at most that many
  days. Replacing the verification function of the environment by any other changes
  nothing, so whether a token still verifies plays no part. With no argument the
  threshold is 30 days.
\<close>

theorem age_sweep_by_creation_time:
  "record_list (snd (cleanupOldTokens e days users)) i =
     filter (\<lambda>r. \<not> createdAt r <
                  subtractDays e (now e) (case days of None \<Rightarrow> 30 | Some d \<Rightarrow> d))
       (record_list users i)
   \<and> set (record_list (snd (cleanupOldTokens e days users)) i) =
     {r. r \<in> set (record_list users i)
         \<and> \<not> createdAt r <
             subtractDays e (now e) (case days of None \<Rightarrow> 30 | Some d \<Rightarrow> d)}
   \<and> (subtractDays e = (\<lambda>date n. date - n * 86400000) \<longrightarrow>
        record_list (snd (cleanupOldTokens e days users)) i =
          filter (\<lambda>r. now e - createdAt r
                        \<le> (case days of None \<Rightarrow> 30 | Some d \<Rightarrow> d) * 86400000)
            (record_list users i))
   \<and> cleanupOldTokens (e\<lparr>jwt_verify := v\<rparr>) days users = cleanupOldTokens e days users
   \<and> cleanupOldTokens e None users = cleanupOldTokens e (Some 30) users"
proof -
  let ?n = "case days of None \<Rightarrow> 30 | Some d \<Rightarrow> d"
  have 1: "record_list (snd (cleanupOldTokens e days users)) i =
     filter (\<lambda>r. \<not> createdAt r < subtractDays e (now e) ?n) (record_list users i)"
    by (simp add: cleanupOldTokens_def cutoffDate_def Let_def record_list_pull_older)
  have 2: "cutoffDate (e\<lparr>jwt_verify := v\<rparr>) = cutoffDate e"
    by (simp add: cutoffDate_def fun_eq_iff)
  have 3: "filter (\<lambda>r. \<not> createdAt r < subtractDays e (now e) ?n) (record_list users i) =
      filter (\<lambda>r. now e - createdAt r \<le> ?n * 86400000) (record_list users i)"
    if "subtractDays e = (\<lambda>date n. date - n * 86400000)"
    by (rule filter_cong) (auto simp: that)
  have 4: "cleanupOldTokens (e\<lparr>jwt_verify := v\<rparr>) days users = cleanupOldTokens e days users"
    by (simp add: cleanupOldTokens_def 2)
  have 5: "cleanupOldTokens e None users = cleanupOldTokens e (Some 30) users"
    by (simp add: cleanupOldTokens_def)
  show ?thesis
    unfolding 1 using 3 4 5 by auto
qed

text \<open>
  On the concrete collection a day is 86400000 milliseconds and now is 3000000000, so
  the date 30 days before now is 408000000. The first user keeps the record created at
  2999999000 and loses the one created at 100; the second user loses the record created
  at 200, whose token still verifies.
\<close>

theorem age_sweep_by_creation_time_witness:
  "subtractDays example_env = (\<lambda>date n. date - n * 86400000)
   \<and> subtractDays example_env (now example_env) 30 = 408000000
   \<and> record_list example_users ''u1'' =
       [\<lparr>token = ''R.u1'', createdAt = 2999999000\<rparr>, \<lparr>token = ''R.u1!'', createdAt = 100\<rparr>]
   \<and> record_list (snd (cleanupOldTokens example_env None example_users)) ''u1'' =
       [\<lparr>token = ''R.u1'', createdAt = 2999999000\<rparr>]
   \<and> record_list example_users ''u2'' = [\<lparr>token = ''R.u2'', createdAt = 200\<rparr>]
   \<and> verifyRefreshToken example_env ''R.u2'' = Inr (RefreshPayload ''u2'')
   \<and> record_list (snd (cleanupOldTokens example_env None example_users)) ''u2'' = []"
proof -
  have h: "subtractDays example_env = (\<lambda>date n. date - n * 86400000)"
    by (simp add: example_env_def)
  have c: "subtractDays example_env (now example_env) 30 = 408000000"
    by (simp add: example_env_def)
  have n: "now example_env = 3000000000"
    by (simp add: example_env_def)
  have l1: "record_list example_users ''u1'' =
       [\<lparr>token = ''R.u1'', createdAt = 2999999000\<rparr>, \<lparr>token = ''R.u1!'', createdAt = 100\<rparr>]"
    by (simp add: example_defs)
  have l2: "record_list example_users ''u2'' = [\<lparr>token = ''R.u2'', createdAt = 200\<rparr>]"
    by (simp add: example_defs)
  have v: "verifyRefreshToken example_env ''R.u2'' = Inr (RefreshPayload ''u2'')"
    by (simp add: example_defs)
  have a1: "record_list (snd (cleanupOldTokens example_env None example_users)) ''u1'' =
       [\<lparr>token = ''R.u1'', createdAt = 2999999000\<rparr>]"
    using age_sweep_by_creation_time
      [where e = example_env and days = None and users = example_users and i = "''u1''",
       THEN conjunct2, THEN conjunct2, THEN conjunct1, THEN mp, OF h]
    by (simp add: l1 n)
  have a2: "record_list (snd (cleanupOldTokens example_env None example_users)) ''u2'' = []"
    using age_sweep_by_creation_time
      [where e = example_env and days = None and users = example_users and i = "''u2''",
       THEN conjunct2, THEN conjunct2, THEN conjunct1, THEN mp, OF h]
    by (simp add: l2 n)
  from h c l1 l2 v a1 a2 show ?thesis by simp
qed

text \<open>
  On the concrete collection both users lose their old record. The second user's token
  still verifies and is removed all the same; the sweep for expired tokens would have
  kept it.
\<close>

lemma age_sweep_example:
  "cleanupOldTokens example_env None example_users =
     (2, [alice\<lparr>refreshTokens := [\<lparr>token = ''R.u1'', createdAt = 2999999000\<rparr>]\<rparr>,
          bob\<lparr>refreshTokens := []\<rparr>])
   \<and> verifyRefreshToken example_env ''R.u2'' = Inr (RefreshPayload ''u2'')
   \<and> cleanupUserRefreshTokens example_env example_users ''u2'' = (0, example_users)"
  by (simp add: cleanupOldTokens_def cutoffDate_def pull_older_def
      cleanupUserRefreshTokens_def example_defs)

section \<open>Refresh\<close>

lemma refresh_absent:
  "truthy rt \<Longrightarrow> verifyRefreshToken e (str rt) = Inr d \<Longrightarrow>
   \<not> list_ex (\<lambda>r. token r = str rt) (record_list users (payload_id d)) \<Longrightarrow>
   refresh e users rt = (failure 401 ''Invalid refresh token'', users)"
  by (auto simp: refresh_def record_list_def split: option.splits)

text \<open>
  A sweep only removes records, so a token that is refused for want of a record is still
  refused after a sweep of any user has run.
\<close>

lemma refused_token_stays_refused_after_sweep:
  "truthy rt \<Longrightarrow> verifyRefreshToken e (str rt) = Inr d \<Longrightarrow>
   \<not> list_ex (\<lambda>r. token r = str rt) (record_list users (payload_id d)) \<Longrightarrow>
   refresh e (snd (cleanupUserRefreshTokens e users i)) rt =
     (failure 401 ''Invalid refresh token'', snd (cleanupUserRefreshTokens e users i))"
  by (rule refresh_absent) (auto simp: record_list_cleanupUserRefreshTokens list_ex_iff)

text \<open>
  C1. Removing the record revokes the token. For every environment, collection and
  presented token: a refresh that succeeds has a token that verifies and that is, by
  exact match of the string, in the record list of the user its claims name; a presented
  token that verifies and is not in that list is answered with status 401 and the message
  "Invalid refresh token"; and after a logout of an authenticated caller with that token,
  the token is no longer in the caller's list and a refresh with it is answered so,
  although it still verifies under the refresh secret.
\<close>

theorem refresh_requires_membership:
  "(status (fst (refresh e users rt)) = 200 \<longrightarrow>
      (\<exists>d. verifyRefreshToken e (str rt) = Inr d
         \<and> list_ex (\<lambda>r. token r = str rt) (record_list users (payload_id d))))
   \<and> (truthy rt \<and> verifyRefreshToken e (str rt) = Inr d
        \<and> \<not> list_ex (\<lambda>r. token r = str rt) (record_list users (payload_id d)) \<longrightarrow>
      refresh e users rt = (failure 401 ''Invalid refresh token'', users))
   \<and> (auth e users hdr = Inr caller \<and> truthy rt
        \<and> verifyRefreshToken e (str rt) = Inr d \<and> payload_id d = v_id caller \<longrightarrow>
      \<not> list_ex (\<lambda>r. token r = str rt)
          (record_list (snd (logout e users hdr rt)) (v_id caller))
      \<and> refresh e (snd (logout e users hdr rt)) rt =
          (failure 401 ''Invalid refresh token'', snd (logout e users hdr rt)))"
proof (intro conjI impI)
  assume "status (fst (refresh e users rt)) = 200"
  then show "\<exists>d. verifyRefreshToken e (str rt) = Inr d
      \<and> list_ex (\<lambda>r. token r = str rt) (record_list users (payload_id d))"
    by (auto simp: refresh_def record_list_def failure_def
        split: if_splits sum.splits option.splits)
next
  assume "truthy rt \<and> verifyRefreshToken e (str rt) = Inr d
        \<and> \<not> list_ex (\<lambda>r. token r = str rt) (record_list users (payload_id d))"
  then show "refresh e users rt = (failure 401 ''Invalid refresh token'', users)"
    by (simp add: refresh_absent)
next
  assume a: "auth e users hdr = Inr caller \<and> truthy rt
        \<and> verifyRefreshToken e (str rt) = Inr d \<and> payload_id d = v_id caller"
  then have s: "snd (logout e users hdr rt) = removeRefreshToken users caller (str rt)"
    by (simp add: logout_def logout_handler_def)
  show "\<not> list_ex (\<lambda>r. token r = str rt)
          (record_list (snd (logout e users hdr rt)) (v_id caller))"
    by (simp add: s record_list_removeRefreshToken list_ex_iff)
  with a show "refresh e (snd (logout e users hdr rt)) rt =
          (failure 401 ''Invalid refresh token'', snd (logout e users hdr rt))"
    by (intro refresh_absent[where d = d]) simp_all
qed

text \<open>
  On the concrete collection: the first user's live token refreshes; after her logout with
  it the same token, which still verifies, is refused; a verifying token of an unknown
  user is refused.
\<close>

theorem refresh_requires_membership_witness:
  "status (fst (refresh example_env example_users (Some ''R.u1''))) = 200
   \<and> list_ex (\<lambda>r. token r = ''R.u1'') (record_list example_users ''u1'')
   \<and> auth example_env example_users (Some ''Bearer A.u1'') = Inr (select_without_secrets alice)
   \<and> verifyRefreshToken example_env ''R.u1'' = Inr (RefreshPayload ''u1'')
   \<and> refresh example_env
        (snd (logout example_env example_users (Some ''Bearer A.u1'') (Some ''R.u1'')))
        (Some ''R.u1'') =
       (failure 401 ''Invalid refresh token'',
        snd (logout example_env example_users (Some ''Bearer A.u1'') (Some ''R.u1'')))
   \<and> verifyRefreshToken example_env ''R.u9'' = Inr (RefreshPayload ''u9'')
   \<and> refresh example_env example_users (Some ''R.u9'') =
       (failure 401 ''Invalid refresh token'', example_users)"
proof -
  have v: "verifyRefreshToken example_env ''R.u1'' = Inr (RefreshPayload ''u1'')"
    by (simp add: example_defs)
  have v9: "verifyRefreshToken example_env ''R.u9'' = Inr (RefreshPayload ''u9'')"
    by (simp add: example_defs)
  have a: "auth example_env example_users (Some ''Bearer A.u1'') =
      Inr (select_without_secrets alice)"
    by (simp add: auth_def example_defs)
  have ok: "status (fst (refresh example_env example_users (Some ''R.u1''))) = 200"
    by (simp add: refresh_def example_defs)
  have m: "list_ex (\<lambda>r. token r = ''R.u1'') (record_list example_users ''u1'')"
    by (simp add: example_defs)
  have n9: "\<not> list_ex (\<lambda>r. token r = ''R.u9'') (record_list example_users ''u9'')"
    by (simp add: example_defs)
  have i: "payload_id (RefreshPayload ''u1'') = v_id (select_without_secrets alice)"
    by (simp add: select_without_secrets_def alice_def)
  from refresh_requires_membership
      [where e = example_env and users = example_users and rt = "Some ''R.u1''"
         and d = "RefreshPayload ''u1''" and hdr = "Some ''Bearer A.u1''"
         and caller = "select_without_secrets alice"]
    refresh_requires_membership
      [where e = example_env and users = example_users and rt = "Some ''R.u9''"
         and d = "RefreshPayload ''u9''"]
    v v9 a ok m n9 i
  show ?thesis by simp
qed



section \<open>Registration\<close>

lemma map_role_updateById:
  "(\<And>u. role (f u) = role u) \<Longrightarrow> map role (updateById i f us) = map role us"
  by (induction us) auto

lemma map_role_save_refreshTokens: "map role (save_refreshTokens i rs us) = map role us"
  unfolding save_refreshTokens_def by (rule map_role_updateById) simp

text \<open>
  Registration takes the role from the request body. On the concrete collection a
  request without credentials of any kind, whose body asks for the role "admin", succeeds
  and creates an administrator.
\<close>

theorem register_role_from_body_counterexample:
  "status (fst (register example_env example_users
      \<lparr>r_name = Some ''Eve'', r_email = Some ''e@x.com'', r_password = Some ''secret1'',
       r_role = Some ''admin''\<rparr>)) = 201
   \<and> map role (snd (register example_env example_users
      \<lparr>r_name = Some ''Eve'', r_email = Some ''e@x.com'', r_password = Some ''secret1'',
       r_role = Some ''admin''\<rparr>)) = [RoleUser, RoleAdmin, RoleAdmin]
   \<and> role (last (snd (register example_env example_users
      \<lparr>r_name = Some ''Eve'', r_email = Some ''e@x.com'', r_password = Some ''secret1'',
       r_role = Some ''admin''\<rparr>))) \<noteq> RoleUser"
  by (simp add: register_def example_defs addRefreshToken_def Let_def)

text \<open>
  C3, as the handler has it. For every registration that succeeds, the roles of the
  users already in the collection are as before, and the created user, who comes last, is
  an administrator exactly when the role field of the request body is the string "admin";
  for every other value of the field, and when it is absent, the role is that of a plain
  user. The user object of the response carries the same role.
\<close>

theorem register_role_assignment:
  "status (fst (register e users body)) = 201 \<longrightarrow>
     map role (snd (register e users body)) =
       map role users @ [if r_role body = Some ''admin'' then RoleAdmin else RoleUser]
     \<and> (\<exists>v a r. data (fst (register e users body)) = AuthData v a r
          \<and> v_role v = (if r_role body = Some ''admin'' then RoleAdmin else RoleUser))"
  by (simp add: register_def failure_def Let_def map_role_save_refreshTokens
      addRefreshToken_def toJSON_def toObject_def)

text \<open>
  A request asking for a role outside the enumeration creates a plain user.
\<close>

theorem register_role_assignment_witness:
  "status (fst (register example_env example_users
      \<lparr>r_name = Some ''Dan'', r_email = Some ''d@x.com'', r_password = Some ''secret1'',
       r_role = Some ''root''\<rparr>)) = 201
   \<and> map role (snd (register example_env example_users
      \<lparr>r_name = Some ''Dan'', r_email = Some ''d@x.com'', r_password = Some ''secret1'',
       r_role = Some ''root''\<rparr>)) = [RoleUser, RoleAdmin, RoleUser]"
proof -
  let ?b = "\<lparr>r_name = Some ''Dan'', r_email = Some ''d@x.com'', r_password = Some ''secret1'',
       r_role = Some ''root''\<rparr>"
  have s: "status (fst (register example_env example_users ?b)) = 201"
    by (simp add: register_def example_defs addRefreshToken_def Let_def)
  have m: "map role example_users = [RoleUser, RoleAdmin]"
    by (simp add: example_defs)
  from register_role_assignment [of example_env example_users ?b] s m
  show ?thesis by simp
qed

section \<open>Logout from all devices\<close>

text \<open>
  C4. For every authenticated caller, logout-all answers with status 200 and leaves the
  caller's record list empty; afterwards a refresh with any token issued to that caller,
  that is a presented token that verifies with the caller's id or has by now expired or
  become malformed, is answered with status 401 and the message "Invalid refresh token".
\<close>

theorem logout_all_revokes_every_token:
  "auth e users hdr = Inr caller \<longrightarrow>
     fst (logout_all e users hdr) =
       \<lparr>status = 200, success = True, message = Some ''Logged out from all devices'',
        data = NoData\<rparr>
     \<and> record_list (snd (logout_all e users hdr)) (v_id caller) = []
     \<and> (truthy rt \<and> (verifyRefreshToken e (str rt) = Inr d \<and> payload_id d = v_id caller
                     \<or> verifyRefreshToken e (str rt) = Inl TokenExpiredError
                     \<or> verifyRefreshToken e (str rt) = Inl JsonWebTokenError) \<longrightarrow>
        refresh e (snd (logout_all e users hdr)) rt =
          (failure 401 ''Invalid refresh token'', snd (logout_all e users hdr)))"
proof (intro impI conjI)
  assume a: "auth e users hdr = Inr caller"
  then have s: "snd (logout_all e users hdr) = save_refreshTokens (v_id caller) [] users"
    by (simp add: logout_all_def logout_all_handler_def)
  from a show "fst (logout_all e users hdr) =
       \<lparr>status = 200, success = True, message = Some ''Logged out from all devices'',
        data = NoData\<rparr>"
    by (simp add: logout_all_def logout_all_handler_def)
  show e: "record_list (snd (logout_all e users hdr)) (v_id caller) = []"
    by (simp add: s record_list_save_refreshTokens split: option.splits)
  assume h: "truthy rt \<and> (verifyRefreshToken e (str rt) = Inr d \<and> payload_id d = v_id caller
                     \<or> verifyRefreshToken e (str rt) = Inl TokenExpiredError
                     \<or> verifyRefreshToken e (str rt) = Inl JsonWebTokenError)"
  then consider "verifyRefreshToken e (str rt) = Inr d \<and> payload_id d = v_id caller"
    | "verifyRefreshToken e (str rt) = Inl TokenExpiredError
       \<or> verifyRefreshToken e (str rt) = Inl JsonWebTokenError" by blast
  then show "refresh e (snd (logout_all e users hdr)) rt =
          (failure 401 ''Invalid refresh token'', snd (logout_all e users hdr))"
  proof cases
    case 1
    with h e show ?thesis by (intro refresh_absent[where d = d]) simp_all
  next
    case 2
    with h show ?thesis by (auto simp: refresh_def)
  qed
qed

theorem logout_all_revokes_every_token_witness:
  "auth example_env example_users (Some ''Bearer A.u1'') = Inr (select_without_secrets alice)
   \<and> record_list example_users ''u1'' =
       [\<lparr>token = ''R.u1'', createdAt = 2999999000\<rparr>, \<lparr>token = ''R.u1!'', createdAt = 100\<rparr>]
   \<and> record_list (snd (logout_all example_env example_users (Some ''Bearer A.u1''))) ''u1'' = []
   \<and> verifyRefreshToken example_env ''R.u1'' = Inr (RefreshPayload ''u1'')
   \<and> refresh example_env (snd (logout_all example_env example_users (Some ''Bearer A.u1'')))
        (Some ''R.u1'') =
       (failure 401 ''Invalid refresh token'',
        snd (logout_all example_env example_users (Some ''Bearer A.u1'')))
   \<and> verifyRefreshToken example_env ''R.u1!'' = Inl TokenExpiredError
   \<and> refresh example_env (snd (logout_all example_env example_users (Some ''Bearer A.u1'')))
        (Some ''R.u1!'') =
       (failure 401 ''Invalid refresh token'',
        snd (logout_all example_env example_users (Some ''Bearer A.u1'')))"
proof -
  have a: "auth example_env example_users (Some ''Bearer A.u1'') =
      Inr (select_without_secrets alice)"
    by (simp add: auth_def example_defs)
  have l: "record_list example_users ''u1'' =
       [\<lparr>token = ''R.u1'', createdAt = 2999999000\<rparr>, \<lparr>token = ''R.u1!'', createdAt = 100\<rparr>]"
    by (simp add: example_defs)
  have v: "verifyRefreshToken example_env ''R.u1'' = Inr (RefreshPayload ''u1'')"
    by (simp add: example_defs)
  have x: "verifyRefreshToken example_env ''R.u1!'' = Inl TokenExpiredError"
    by (simp add: example_defs)
  have i: "v_id (select_without_secrets alice) = ''u1''"
    by (simp add: select_without_secrets_def alice_def)
  from logout_all_revokes_every_token
      [where e = example_env and users = example_users and hdr = "Some ''Bearer A.u1''"
         and caller = "select_without_secrets alice" and rt = "Some ''R.u1''"
         and d = "RefreshPayload ''u1''"]
    logout_all_revokes_every_token
      [where e = example_env and users = example_users and hdr = "Some ''Bearer A.u1''"
         and caller = "select_without_secrets alice" and rt = "Some ''R.u1!''"]
    a l v x i
  show ?thesis by simp
qed

section \<open>Login\<close>

text \<open>
  C5. For every login request that gives an email and a password: when no user has the
  email, and when a user has it and the password does not compare, the answer is the same,
  status 401 with the message "Invalid credentials", and the collection is as before. A
  login that does not succeed, whatever the reason, leaves the collection, and with it
  every record list, unchanged.
\<close>

theorem login_failure_uniform:
  "(truthy (l_email body) \<and> truthy (l_password body)
      \<and> findOne_email users (str (l_email body)) = None \<longrightarrow>
      login e users body = (failure 401 ''Invalid credentials'', users))
   \<and> (truthy (l_email body) \<and> truthy (l_password body)
      \<and> findOne_email users (str (l_email body)) = Some u
      \<and> \<not> comparePassword e u (str (l_password body)) \<longrightarrow>
      login e users body = (failure 401 ''Invalid credentials'', users))
   \<and> (status (fst (login e users body)) \<noteq> 200 \<longrightarrow> snd (login e users body) = users)"
proof (intro conjI impI)
  assume "truthy (l_email body) \<and> truthy (l_password body)
      \<and> findOne_email users (str (l_email body)) = None"
  then show "login e users body = (failure 401 ''Invalid credentials'', users)"
    by (simp add: login_def)
next
  assume "truthy (l_email body) \<and> truthy (l_password body)
      \<and> findOne_email users (str (l_email body)) = Some u
      \<and> \<not> comparePassword e u (str (l_password body))"
  then show "login e users body = (failure 401 ''Invalid credentials'', users)"
    by (simp add: login_def)
next
  assume "status (fst (login e users body)) \<noteq> 200"
  then show "snd (login e users body) = users"
    by (auto simp: login_def failure_def Let_def split: option.splits if_splits)
qed

theorem login_failure_uniform_witness:
  "findOne_email example_users ''z@x.com'' = None
   \<and> login example_env example_users \<lparr>l_email = Some ''z@x.com'', l_password = Some ''secret1''\<rparr>
       = (failure 401 ''Invalid credentials'', example_users)
   \<and> findOne_email example_users ''a@x.com'' = Some alice
   \<and> \<not> comparePassword example_env alice ''secret2''
   \<and> login example_env example_users \<lparr>l_email = Some ''a@x.com'', l_password = Some ''secret2''\<rparr>
       = (failure 401 ''Invalid credentials'', example_users)
   \<and> snd (login example_env example_users
            \<lparr>l_email = Some ''a@x.com'', l_password = Some ''secret2''\<rparr>) = example_users"
proof -
  have n: "findOne_email example_users ''z@x.com'' = None"
    by (simp add: example_defs)
  have f: "findOne_email example_users ''a@x.com'' = Some alice"
    by (simp add: example_defs)
  have c: "\<not> comparePassword example_env alice ''secret2''"
    by (simp add: example_defs)
  from login_failure_uniform
      [where e = example_env and users = example_users
         and body = "\<lparr>l_email = Some ''z@x.com'', l_password = Some ''secret1''\<rparr>"]
    login_failure_uniform
      [where e = example_env and users = example_users and u = alice
         and body = "\<lparr>l_email = Some ''a@x.com'', l_password = Some ''secret2''\<rparr>"]
    n f c
  show ?thesis by (simp add: failure_def)
qed

section \<open>The user object of a response\<close>

text \<open>
  C8. For every registration and every login that succeeds, the data of the response is
  the user object with the access token and the refresh token minted for that user, and
  the user object has neither the password hash nor the record list; it carries the id,
  name, email and role of the user.
\<close>

theorem register_login_response_without_secrets:
  "(status (fst (register e users rb)) = 201 \<longrightarrow>
      (\<exists>v. data (fst (register e users rb)) =
             AuthData v (generateAccessToken e (AccessPayload (v_id v) (v_email v) (v_role v)))
               (generateRefreshToken e (RefreshPayload (v_id v)))
         \<and> v_password v = None \<and> v_refreshTokens v = None
         \<and> v_name v = str (r_name rb) \<and> v_email v = str (r_email rb)))
   \<and> (status (fst (login e users lb)) = 200 \<longrightarrow>
      (\<exists>u v. findOne_email users (str (l_email lb)) = Some u
         \<and> data (fst (login e users lb)) =
             AuthData v (generateAccessToken e (AccessPayload (uid u) (email u) (role u)))
               (generateRefreshToken e (RefreshPayload (uid u)))
         \<and> v_password v = None \<and> v_refreshTokens v = None
         \<and> v_id v = uid u \<and> v_name v = name u \<and> v_email v = email u \<and> v_role v = role u))"
proof (intro conjI impI)
  assume "status (fst (register e users rb)) = 201"
  then show "\<exists>v. data (fst (register e users rb)) =
             AuthData v (generateAccessToken e (AccessPayload (v_id v) (v_email v) (v_role v)))
               (generateRefreshToken e (RefreshPayload (v_id v)))
         \<and> v_password v = None \<and> v_refreshTokens v = None
         \<and> v_name v = str (r_name rb) \<and> v_email v = str (r_email rb)"
    by (simp add: register_def failure_def Let_def addRefreshToken_def toJSON_def
        toObject_def split: if_splits)
next
  assume "status (fst (login e users lb)) = 200"
  then show "\<exists>u v. findOne_email users (str (l_email lb)) = Some u
         \<and> data (fst (login e users lb)) =
             AuthData v (generateAccessToken e (AccessPayload (uid u) (email u) (role u)))
               (generateRefreshToken e (RefreshPayload (uid u)))
         \<and> v_password v = None \<and> v_refreshTokens v = None
         \<and> v_id v = uid u \<and> v_name v = name u \<and> v_email v = email u \<and> v_role v = role u"
    by (auto simp: login_def failure_def Let_def addRefreshToken_def toJSON_def
        toObject_def split: if_splits option.splits)
qed

theorem register_login_response_without_secrets_witness:
  "fst (register example_env example_users
      \<lparr>r_name = Some ''Dan'', r_email = Some ''d@x.com'', r_password = Some ''secret1'',
       r_role = None\<rparr>) =
     \<lparr>status = 201, success = True, message = Some ''User registered successfully'',
      data = AuthData
        \<lparr>v_id = ''u++'', v_name = ''Dan'', v_email = ''d@x.com'', v_role = RoleUser,
         v_googleId = None, v_password = None, v_refreshTokens = None\<rparr>
        ''A.u++'' ''R.u++''\<rparr>
   \<and> fst (login example_env example_users
        \<lparr>l_email = Some ''a@x.com'', l_password = Some ''secret1''\<rparr>) =
     \<lparr>status = 200, success = True, message = Some ''Login successful'',
      data = AuthData
        \<lparr>v_id = ''u1'', v_name = ''Alice'', v_email = ''a@x.com'', v_role = RoleUser,
         v_googleId = None, v_password = None, v_refreshTokens = None\<rparr>
        ''A.u1'' ''R.u1''\<rparr>"
proof -
  let ?rb = "\<lparr>r_name = Some ''Dan'', r_email = Some ''d@x.com'', r_password = Some ''secret1'',
       r_role = None\<rparr>"
  let ?lb = "\<lparr>l_email = Some ''a@x.com'', l_password = Some ''secret1''\<rparr>"
  have r: "fst (register example_env example_users ?rb) =
     \<lparr>status = 201, success = True, message = Some ''User registered successfully'',
      data = AuthData
        \<lparr>v_id = ''u++'', v_name = ''Dan'', v_email = ''d@x.com'', v_role = RoleUser,
         v_googleId = None, v_password = None, v_refreshTokens = None\<rparr>
        ''A.u++'' ''R.u++''\<rparr>"
    by (simp add: register_def example_defs addRefreshToken_def Let_def toJSON_def toObject_def)
  have l: "fst (login example_env example_users ?lb) =
     \<lparr>status = 200, success = True, message = Some ''Login successful'',
      data = AuthData
        \<lparr>v_id = ''u1'', v_name = ''Alice'', v_email = ''a@x.com'', v_role = RoleUser,
         v_googleId = None, v_password = None, v_refreshTokens = None\<rparr>
        ''A.u1'' ''R.u1''\<rparr>"
    by (simp add: login_def example_defs addRefreshToken_def Let_def toJSON_def toObject_def)
  from register_login_response_without_secrets
      [where e = example_env and users = example_users and rb = ?rb and lb = ?lb] r l
  show ?thesis by simp
qed

section \<open>The access guard and the role check\<close>

text \<open>
  C9. For every request, the guard answers with status 401 exactly when the
  Authorization header is absent or does not start with "Bearer ", or the token fails
  verification as expired or as malformed, or the token verifies and no user has the id of
  its claims. When the guard passes a user on, that user is the one found by the id of the
  verified claims, without the password hash and the record list. The role check answers
  with status 403 for every user whose role is not administrator, and passes an
  administrator on.
\<close>

theorem access_guard_decision:
  "((\<exists>r. auth e users hdr = Inl r \<and> status r = 401) \<longleftrightarrow>
      (\<not> truthy hdr \<or> \<not> prefix ''Bearer '' (str hdr)
       \<or> verifyAccessToken e (drop 7 (str hdr)) = Inl TokenExpiredError
       \<or> verifyAccessToken e (drop 7 (str hdr)) = Inl JsonWebTokenError
       \<or> (\<exists>d. verifyAccessToken e (drop 7 (str hdr)) = Inr d
             \<and> findById users (payload_id d) = None)))
   \<and> (auth e users hdr = Inr v \<longrightarrow>
        (\<exists>d u. verifyAccessToken e (drop 7 (str hdr)) = Inr d
           \<and> findById users (payload_id d) = Some u \<and> v = select_without_secrets u)
        \<and> v_password v = None \<and> v_refreshTokens v = None)
   \<and> (v_role v \<noteq> RoleAdmin \<longrightarrow>
        adminAuth v = Inl (failure 403 ''Access denied. Admin role required.''))
   \<and> (v_role v = RoleAdmin \<longrightarrow> adminAuth v = Inr v)"
proof (intro conjI)
  show "(\<exists>r. auth e users hdr = Inl r \<and> status r = 401) \<longleftrightarrow>
      (\<not> truthy hdr \<or> \<not> prefix ''Bearer '' (str hdr)
       \<or> verifyAccessToken e (drop 7 (str hdr)) = Inl TokenExpiredError
       \<or> verifyAccessToken e (drop 7 (str hdr)) = Inl JsonWebTokenError
       \<or> (\<exists>d. verifyAccessToken e (drop 7 (str hdr)) = Inr d
             \<and> findById users (payload_id d) = None))"
    by (auto simp: auth_def failure_def split: sum.splits option.splits jwt_error.splits)
  show "auth e users hdr = Inr v \<longrightarrow>
        (\<exists>d u. verifyAccessToken e (drop 7 (str hdr)) = Inr d
           \<and> findById users (payload_id d) = Some u \<and> v = select_without_secrets u)
        \<and> v_password v = None \<and> v_refreshTokens v = None"
    by (auto simp: auth_def select_without_secrets_def
        split: if_splits sum.splits option.splits)
  show "v_role v \<noteq> RoleAdmin \<longrightarrow>
        adminAuth v = Inl (failure 403 ''Access denied. Admin role required.'')"
    by (simp add: adminAuth_def)
  show "v_role v = RoleAdmin \<longrightarrow> adminAuth v = Inr v"
    by (simp add: adminAuth_def)
qed

theorem access_guard_decision_witness:
  "auth example_env example_users None = Inl (failure 401 ''Access denied. No token provided.'')
   \<and> auth example_env example_users (Some ''Token A.u1'') =
       Inl (failure 401 ''Access denied. No token provided.'')
   \<and> auth example_env example_users (Some ''Bearer A.u1!'') = Inl (failure 401 ''Token expired.'')
   \<and> auth example_env example_users (Some ''Bearer R.u1'') = Inl (failure 401 ''Invalid token.'')
   \<and> auth example_env example_users (Some ''Bearer A.u9'') =
       Inl (failure 401 ''Invalid token. User not found.'')
   \<and> auth example_env example_users (Some ''Bearer A.u1'') = Inr (select_without_secrets alice)
   \<and> v_password (select_without_secrets alice) = None
   \<and> v_refreshTokens (select_without_secrets alice) = None
   \<and> adminAuth (select_without_secrets alice) =
       Inl (failure 403 ''Access denied. Admin role required.'')
   \<and> auth example_env example_users (Some ''Bearer A.u2'') = Inr (select_without_secrets bob)
   \<and> adminAuth (select_without_secrets bob) = Inr (select_without_secrets bob)"
proof -
  have 1: "auth example_env example_users None =
      Inl (failure 401 ''Access denied. No token provided.'')"
    by (simp add: auth_def)
  have 2: "auth example_env example_users (Some ''Token A.u1'') =
       Inl (failure 401 ''Access denied. No token provided.'')"
    by (simp add: auth_def)
  have 3: "auth example_env example_users (Some ''Bearer A.u1!'') =
      Inl (failure 401 ''Token expired.'')"
    by (simp add: auth_def example_defs)
  have 4: "auth example_env example_users (Some ''Bearer R.u1'') =
      Inl (failure 401 ''Invalid token.'')"
    by (simp add: auth_def example_defs)
  have 5: "auth example_env example_users (Some ''Bearer A.u9'') =
       Inl (failure 401 ''Invalid token. User not found.'')"
    by (simp add: auth_def example_defs)
  have 6: "auth example_env example_users (Some ''Bearer A.u1'') =
      Inr (select_without_secrets alice)"
    by (simp add: auth_def example_defs)
  have 7: "auth example_env example_users (Some ''Bearer A.u2'') =
      Inr (select_without_secrets bob)"
    by (simp add: auth_def example_defs)
  have ra: "v_role (select_without_secrets alice) \<noteq> RoleAdmin"
    by (simp add: select_without_secrets_def alice_def)
  have rb: "v_role (select_without_secrets bob) = RoleAdmin"
    by (simp add: select_without_secrets_def bob_def)
  from access_guard_decision
      [where e = example_env and users = example_users and hdr = "Some ''Bearer A.u1''"
         and v = "select_without_secrets alice"]
    access_guard_decision
      [where e = example_env and users = example_users and hdr = "Some ''Bearer A.u2''"
         and v = "select_without_secrets bob"]
    1 2 3 4 5 6 7 ra rb
  show ?thesis by simp
qed

section \<open>Logout\<close>

text \<open>
  C10. For every authenticated caller: a logout whose body has no refresh token is the
  same as logout-all, response and collection, and leaves the caller's record list empty;
  a logout whose body has a refresh token leaves the caller's record list without the
  records of that token and with every other record, in order; and the record list of
  every other user is as before in both cases.
\<close>

theorem logout_without_token_clears_all:
  "auth e users hdr = Inr caller \<longrightarrow>
     (\<not> truthy rt \<longrightarrow>
        logout e users hdr rt = logout_all e users hdr
        \<and> status (fst (logout e users hdr rt)) = 200
        \<and> record_list (snd (logout e users hdr rt)) (v_id caller) = [])
     \<and> (truthy rt \<longrightarrow>
        status (fst (logout e users hdr rt)) = 200
        \<and> record_list (snd (logout e users hdr rt)) (v_id caller) =
            filter (\<lambda>r. token r \<noteq> str rt) (record_list users (v_id caller)))
     \<and> (j \<noteq> v_id caller \<longrightarrow>
        record_list (snd (logout e users hdr rt)) j = record_list users j)"
  by (auto simp: logout_def logout_all_def logout_handler_def logout_all_handler_def
      record_list_save_refreshTokens record_list_removeRefreshToken split: option.splits)

theorem logout_without_token_clears_all_witness:
  "auth example_env example_users (Some ''Bearer A.u1'') = Inr (select_without_secrets alice)
   \<and> record_list example_users ''u1'' =
       [\<lparr>token = ''R.u1'', createdAt = 2999999000\<rparr>, \<lparr>token = ''R.u1!'', createdAt = 100\<rparr>]
   \<and> record_list (snd (logout example_env example_users (Some ''Bearer A.u1'') None)) ''u1'' = []
   \<and> record_list (snd (logout example_env example_users (Some ''Bearer A.u1'') (Some ''R.u1'')))
        ''u1'' = [\<lparr>token = ''R.u1!'', createdAt = 100\<rparr>]
   \<and> record_list (snd (logout example_env example_users (Some ''Bearer A.u1'') None)) ''u2'' =
       [\<lparr>token = ''R.u2'', createdAt = 200\<rparr>]"
proof -
  have a: "auth example_env example_users (Some ''Bearer A.u1'') =
      Inr (select_without_secrets alice)"
    by (simp add: auth_def example_defs)
  have l: "record_list example_users ''u1'' =
       [\<lparr>token = ''R.u1'', createdAt = 2999999000\<rparr>, \<lparr>token = ''R.u1!'', createdAt = 100\<rparr>]"
    by (simp add: example_defs)
  have l2: "record_list example_users ''u2'' = [\<lparr>token = ''R.u2'', createdAt = 200\<rparr>]"
    by (simp add: example_defs)
  have i: "v_id (select_without_secrets alice) = ''u1''"
    by (simp add: select_without_secrets_def alice_def)
  have nt: "\<not> truthy None" and tt: "truthy (Some ''R.u1'')" and ne: "''u2'' \<noteq> ''u1''"
    by simp_all
  note all = logout_without_token_clears_all
      [where e = example_env and users = example_users and hdr = "Some ''Bearer A.u1''"
         and caller = "select_without_secrets alice" and rt = None and j = "''u2''",
       THEN mp, OF a, unfolded i]
  note one = logout_without_token_clears_all
      [where e = example_env and users = example_users and hdr = "Some ''Bearer A.u1''"
         and caller = "select_without_secrets alice" and rt = "Some ''R.u1''",
       THEN mp, OF a, unfolded i]
  have c1: "record_list (snd (logout example_env example_users (Some ''Bearer A.u1'') None))
      ''u1'' = []"
    using all [THEN conjunct1, THEN mp, OF nt] by (rule conjunct2 [THEN conjunct2])
  have c2: "record_list (snd (logout example_env example_users (Some ''Bearer A.u1'')
      (Some ''R.u1''))) ''u1'' = [\<lparr>token = ''R.u1!'', createdAt = 100\<rparr>]"
    using one [THEN conjunct2, THEN conjunct1, THEN mp, OF tt, THEN conjunct2] l by simp
  have c3: "record_list (snd (logout example_env example_users (Some ''Bearer A.u1'') None))
      ''u2'' = [\<lparr>token = ''R.u2'', createdAt = 200\<rparr>]"
    using all [THEN conjunct2, THEN conjunct2, THEN mp, OF ne] l2 by simp
  from a l c1 c2 c3 show ?thesis by simp
qed

end
